theory Spec2Isabelle
  imports Complex_Main
begin

section \<open>JavaScript values and results\<close>

text \<open>
  A JavaScript number: a finite value, an infinity or \<open>NaN\<close>. The finite values are the
  doubles; where the code computes a new number, the exact result is rounded to a double
  by the runtime (see \<open>to_double\<close> below). Zero stands for both \<open>0\<close> and \<open>-0\<close>, which
  the code does not tell apart.
\<close>

datatype number = Fin rat | PosInf | NegInf | NaN

text \<open>
  The values that a wrapped computation can produce, throw or reject with. \<open>VError m\<close> is
  \<open>new Error(m)\<close>; \<open>VObject ps\<close> is a plain object with the properties \<open>ps\<close>, none of
  them a function.
\<close>

datatype val =
    VUndefined
  | VNull
  | VBool bool
  | VNum number
  | VStr string
  | VError string
  | VObject "(string \<times> val) list"

text \<open>JavaScript's ToBoolean, as used by \<open>!x\<close>, \<open>x || y\<close> and \<open>if (x)\<close>.\<close>

fun truthy_number :: "number \<Rightarrow> bool" where
  "truthy_number (Fin x) = (x \<noteq> 0)"
| "truthy_number PosInf = True"
| "truthy_number NegInf = True"
| "truthy_number NaN = False"

fun truthy :: "val \<Rightarrow> bool" where
  "truthy VUndefined = False"
| "truthy VNull = False"
| "truthy (VBool b) = b"
| "truthy (VNum n) = truthy_number n"
| "truthy (VStr s) = (s \<noteq> [])"
| "truthy (VError m) = True"
| "truthy (VObject ps) = True"

text \<open>
  The test of lines 272 and 280, \<open>x && typeof x === 'object' && 'then' in x\<close>, on a value
  that is not a promise: it holds of an object with a property named \<open>then\<close>, whose
  properties are returned.
\<close>

fun then_object :: "val \<Rightarrow> (string \<times> val) list option" where
  "then_object (VObject ps) = (if ''then'' \<in> set (map fst ps) then Some ps else None)"
| "then_object v = None"

text \<open>\<open>Result<T, E>\<close> of types.ts: an object with the two fields \<open>data\<close> and \<open>error\<close>.\<close>

record result =
  data :: val
  error :: val

section \<open>The runtime\<close>

text \<open>
  What the code takes from the JavaScript runtime and not from this repository:
  \<open>random_number k\<close> is what the \<open>k\<close>-th call of \<open>Math.random()\<close> returns;
  \<open>timer_ms d\<close> is the time in milliseconds after which a timer armed by
  \<open>setTimeout(f, d)\<close> fires; \<open>number_string n\<close> is the string of a number in a template
  literal; \<open>to_double x\<close> is the double that the exact result \<open>x\<close> of an addition or a
  multiplication of two finite doubles is rounded to (an infinity on overflow).
\<close>

record runtime =
  random_number :: "nat \<Rightarrow> rat"
  timer_ms :: "number \<Rightarrow> rat"
  number_string :: "number \<Rightarrow> string"
  to_double :: "rat \<Rightarrow> number"

text \<open>\<open>x + y\<close>, \<open>x * y\<close>, \<open>Math.min(x, y)\<close>, \<open>x <= y\<close> on numbers.\<close>

fun num_add :: "runtime \<Rightarrow> number \<Rightarrow> number \<Rightarrow> number" where
  "num_add rt NaN y = NaN"
| "num_add rt x NaN = NaN"
| "num_add rt (Fin a) (Fin b) = to_double rt (a + b)"
| "num_add rt PosInf NegInf = NaN"
| "num_add rt NegInf PosInf = NaN"
| "num_add rt PosInf y = PosInf"
| "num_add rt NegInf y = NegInf"
| "num_add rt (Fin a) y = y"

fun num_mul :: "runtime \<Rightarrow> number \<Rightarrow> number \<Rightarrow> number" where
  "num_mul rt NaN y = NaN"
| "num_mul rt x NaN = NaN"
| "num_mul rt (Fin a) (Fin b) = to_double rt (a * b)"
| "num_mul rt (Fin a) PosInf = (if a = 0 then NaN else if 0 < a then PosInf else NegInf)"
| "num_mul rt (Fin a) NegInf = (if a = 0 then NaN else if 0 < a then NegInf else PosInf)"
| "num_mul rt PosInf (Fin b) = (if b = 0 then NaN else if 0 < b then PosInf else NegInf)"
| "num_mul rt NegInf (Fin b) = (if b = 0 then NaN else if 0 < b then NegInf else PosInf)"
| "num_mul rt PosInf PosInf = PosInf"
| "num_mul rt NegInf NegInf = PosInf"
| "num_mul rt PosInf NegInf = NegInf"
| "num_mul rt NegInf PosInf = NegInf"

fun num_le :: "number \<Rightarrow> number \<Rightarrow> bool" where
  "num_le NaN y = False"
| "num_le x NaN = False"
| "num_le (Fin a) (Fin b) = (a \<le> b)"
| "num_le NegInf y = True"
| "num_le x PosInf = True"
| "num_le PosInf y = False"
| "num_le x NegInf = False"

fun num_min :: "number \<Rightarrow> number \<Rightarrow> number" where
  "num_min NaN y = NaN"
| "num_min x NaN = NaN"
| "num_min x y = (if num_le x y then x else y)"

text \<open>
  \<open>2 ** e\<close> for a whole number \<open>e\<close>: a power of two is a double from \<open>2 ** -1074\<close> to
  \<open>2 ** 1023\<close>; below it is 0 and beyond it is \<open>Infinity\<close>.
\<close>

definition pow2 :: "int \<Rightarrow> number" where
  "pow2 e =
     (if e < - 1074 then Fin 0
      else if e < 0 then Fin (1 / 2 ^ nat (- e))
      else if e \<le> 1023 then Fin (2 ^ nat e)
      else PosInf)"

section \<open>Configuration\<close>

text \<open>
  \<open>BackoffConfig\<close> and \<open>AsyncConfig extends BackoffConfig\<close> of types.ts. Every property is
  optional: \<open>None\<close> is a property that is absent or \<open>undefined\<close>.
\<close>

record backoff_config =
  baseDelayMs :: "number option"
  exponential :: "bool option"
  maxDelayMs :: "number option"
  jitter :: "bool option"

record async_config = backoff_config +
  timeoutMs :: "number option"
  timeoutError :: "val option"
  maxRetries :: "number option"

text \<open>The constructor's default \<open>config: AsyncConfig = {}\<close>.\<close>

definition empty_config :: async_config where
  "empty_config =
     \<lparr>baseDelayMs = None, exponential = None, maxDelayMs = None, jitter = None,
      timeoutMs = None, timeoutError = None, maxRetries = None\<rparr>"

text \<open>
  Truthiness of an optional number and of an optional boolean, and an optional number
  read as a number (\<open>undefined\<close> converts to \<open>NaN\<close>).
\<close>

definition truthy_num :: "number option \<Rightarrow> bool" where
  "truthy_num x = (case x of None \<Rightarrow> False | Some n \<Rightarrow> truthy_number n)"

definition truthy_flag :: "bool option \<Rightarrow> bool" where
  "truthy_flag x = (case x of None \<Rightarrow> False | Some b \<Rightarrow> b)"

definition as_number :: "number option \<Rightarrow> number" where
  "as_number x = (case x of None \<Rightarrow> NaN | Some n \<Rightarrow> n)"

section \<open>Promises, operations and the world\<close>

text \<open>
  A promise either never settles or settles at a point of time (milliseconds on the event
  loop's clock) by fulfilling with a value or rejecting with a reason. It is a native
  promise, with the methods \<open>then\<close> and \<open>finally\<close>.
\<close>

datatype settlement = Fulfil val | Reject val

datatype promise = Never | Settles rat settlement

text \<open>
  The constructor's \<open>operation: Promise<T> | (() => Promise<T>)\<close>. A function is given the
  number of its earlier invocations and the time of the call; it throws (\<open>Inl\<close>) or
  returns a promise (\<open>Inr\<close>). \<open>OpObject ps\<close> is an object with a \<open>then\<close> property that
  is not a function, which \<open>Try.catch\<close> casts to a promise (lines 273 and 281).
\<close>

datatype operation =
    OpPromise promise
  | OpFunction "nat \<Rightarrow> rat \<Rightarrow> val + promise"
  | OpObject "(string \<times> val) list"

record async_operation =
  operation :: operation
  config :: async_config

text \<open>
  The state threaded through an execution: the clock, how often the wrapped function has
  been invoked, how many random numbers have been drawn, the Results of the single
  attempts made so far, the delays passed to \<open>Try.sleep\<close>, and the reasons of promises
  that reject with no handler attached.
\<close>

record world =
  now :: rat
  calls :: nat
  draws :: nat
  attempts :: "result list"
  sleeps :: "number list"
  unhandled :: "val list"

definition world0 :: world where
  "world0 = \<lparr>now = 0, calls = 0, draws = 0, attempts = [], sleeps = [], unhandled = []\<rparr>"

text \<open>How an awaited asynchronous step ends.\<close>

datatype 'a async = Resolves 'a world | RejectsWith val world | NeverSettles

section \<open>The chaining methods\<close>

definition withTimeout :: "number \<Rightarrow> val option \<Rightarrow> async_operation \<Rightarrow> async_operation" where
  "withTimeout ms err this =
     \<lparr>operation = operation this,
      config = (config this)\<lparr>timeoutMs := Some ms, timeoutError := err\<rparr>\<rparr>"

definition withRetry :: "number \<Rightarrow> async_operation \<Rightarrow> async_operation" where
  "withRetry maxAttempts this =
     \<lparr>operation = operation this,
      config = (config this)\<lparr>maxRetries := Some maxAttempts\<rparr>\<rparr>"

definition withBackoff :: "backoff_config \<Rightarrow> async_operation \<Rightarrow> async_operation" where
  "withBackoff options this =
     \<lparr>operation = operation this,
      config = (config this)
        \<lparr>baseDelayMs := baseDelayMs options,
         exponential := exponential options,
         maxDelayMs := maxDelayMs options,
         jitter := jitter options\<rparr>\<rparr>"

section \<open>A single attempt\<close>

text \<open>
  Lines 127 to 131: the promise of this attempt. Awaiting an object whose \<open>then\<close> is not a
  function yields the object at once, as a promise already fulfilled with it does.
\<close>

definition obtain_promise :: "operation \<Rightarrow> world \<Rightarrow> (val + promise) \<times> world" where
  "obtain_promise op w =
     (case op of
        OpFunction f \<Rightarrow> (f (calls w) (now w), w\<lparr>calls := calls w + 1\<rparr>)
      | OpPromise p \<Rightarrow> (Inr p, w)
      | OpObject ps \<Rightarrow> (Inr (Settles (now w) (Fulfil (VObject ps))), w))"

text \<open>Lines 137 to 141: the reason the timer rejects with.\<close>

definition timeout_reason :: "runtime \<Rightarrow> async_config \<Rightarrow> val" where
  "timeout_reason rt cfg =
     (let fallback =
        VError (''Operation timed out after '' @
                (case timeoutMs cfg of
                   None \<Rightarrow> ''undefined''
                 | Some ms \<Rightarrow> number_string rt ms) @
                ''ms'')
      in case timeoutError cfg of
           None \<Rightarrow> fallback
         | Some e \<Rightarrow> if truthy e then e else fallback)"

text \<open>
  Lines 135 to 153. The timer fires \<open>timer_ms\<close> milliseconds after it is armed, and the
  race is won by whichever settles first, the operation on a tie. The promise that
  \<open>finally\<close> returns has no handler: it rejects when the operation does. (For an
  \<open>OpObject\<close>, which has no method \<open>finally\<close>, the executor throws and \<open>timeoutPromise\<close> is
  rejected; the object is first in the race and wins it.)
\<close>

definition race_timeout :: "runtime \<Rightarrow> async_config \<Rightarrow> promise \<Rightarrow> world \<Rightarrow> promise \<times> world" where
  "race_timeout rt cfg p w =
     (let deadline = now w + max 0 (timer_ms rt (as_number (timeoutMs cfg)));
          timed_out = Settles deadline (Reject (timeout_reason rt cfg))
      in case p of
           Never \<Rightarrow> (timed_out, w)
         | Settles t (Fulfil v) \<Rightarrow> (if t \<le> deadline then p else timed_out, w)
         | Settles t (Reject e) \<Rightarrow>
             (if t \<le> deadline then p else timed_out, w\<lparr>unhandled := unhandled w @ [e]\<rparr>))"

text \<open>Line 156: \<open>await operationPromise\<close>.\<close>

definition await_promise :: "promise \<Rightarrow> world \<Rightarrow> val async" where
  "await_promise p w =
     (case p of
        Never \<Rightarrow> NeverSettles
      | Settles t (Fulfil v) \<Rightarrow> Resolves v (w\<lparr>now := max (now w) t\<rparr>)
      | Settles t (Reject e) \<Rightarrow> RejectsWith e (w\<lparr>now := max (now w) t\<rparr>))"

text \<open>The body of the \<open>try\<close> block of \<open>run\<close>, lines 125 to 157.\<close>

definition run_try :: "runtime \<Rightarrow> async_config \<Rightarrow> operation \<Rightarrow> world \<Rightarrow> result async" where
  "run_try rt cfg op w =
     (case obtain_promise op w of
        (Inl e, w1) \<Rightarrow> RejectsWith e w1
      | (Inr p, w1) \<Rightarrow>
          (let (operationPromise, w2) =
                 (if truthy_num (timeoutMs cfg)
                  then race_timeout rt cfg p w1
                  else (p, w1))
           in case await_promise operationPromise w2 of
                Resolves v w3 \<Rightarrow> Resolves \<lparr>data = v, error = VNull\<rparr> w3
              | RejectsWith e w3 \<Rightarrow> RejectsWith e w3
              | NeverSettles \<Rightarrow> NeverSettles))"

text \<open>\<open>run\<close>: the \<open>try\<close> block with its \<open>catch\<close>. Each Result is recorded in the world.\<close>

definition note_attempt :: "result \<Rightarrow> world \<Rightarrow> result async" where
  "note_attempt r w = Resolves r (w\<lparr>attempts := attempts w @ [r]\<rparr>)"

definition run :: "runtime \<Rightarrow> async_config \<Rightarrow> operation \<Rightarrow> world \<Rightarrow> result async" where
  "run rt cfg op w =
     (case run_try rt cfg op w of
        Resolves r w1 \<Rightarrow> note_attempt r w1
      | RejectsWith e w1 \<Rightarrow> note_attempt \<lparr>data = VNull, error = e\<rparr> w1
      | NeverSettles \<Rightarrow> NeverSettles)"

section \<open>The retry loop\<close>

text \<open>\<open>x || d\<close> on an optional number.\<close>

definition or_num :: "number option \<Rightarrow> number \<Rightarrow> number" where
  "or_num x d = (case x of None \<Rightarrow> d | Some n \<Rightarrow> if truthy_number n then n else d)"

text \<open>Line 173.\<close>

definition max_attempts :: "runtime \<Rightarrow> async_config \<Rightarrow> number" where
  "max_attempts rt cfg = num_add rt (or_num (maxRetries cfg) (Fin 0)) (Fin 1)"

text \<open>
  \<open>attempt++\<close>, line 177. The counter starts at 1 and is a whole number; adding 1 is exact
  below \<open>2 ** 53\<close>, and \<open>2 ** 53 + 1\<close> rounds to \<open>2 ** 53\<close>.
\<close>

definition next_attempt :: "int \<Rightarrow> int" where
  "next_attempt attempt = (if attempt < 2 ^ 53 then attempt + 1 else attempt)"

text \<open>\<open>Try.sleep\<close>, awaited: a timer armed with the delay \<open>ms\<close>.\<close>

definition sleep :: "runtime \<Rightarrow> number \<Rightarrow> world \<Rightarrow> world" where
  "sleep rt ms w = w\<lparr>now := now w + max 0 (timer_ms rt ms), sleeps := sleeps w @ [ms]\<rparr>"

text \<open>Lines 195 to 212: the delay after the cap, before the jitter.\<close>

definition capped_delay :: "runtime \<Rightarrow> async_config \<Rightarrow> int \<Rightarrow> number" where
  "capped_delay rt cfg attempt =
     (let delay = (if truthy_flag (exponential cfg)
                   then num_mul rt (pow2 (attempt - 1)) (as_number (baseDelayMs cfg))
                   else num_mul rt (Fin (of_int attempt)) (as_number (baseDelayMs cfg)))
      in num_min delay (or_num (maxDelayMs cfg) (Fin 30000)))"

text \<open>Lines 194 to 220.\<close>

definition backoff :: "runtime \<Rightarrow> async_config \<Rightarrow> int \<Rightarrow> world \<Rightarrow> world" where
  "backoff rt cfg attempt w =
     (if truthy_num (baseDelayMs cfg)
      then (if truthy_flag (jitter cfg)
            then sleep rt
                   (num_add rt (capped_delay rt cfg attempt)
                      (num_mul rt (Fin (random_number rt (draws w))) (Fin 1000)))
                   (w\<lparr>draws := draws w + 1\<rparr>)
            else sleep rt (capped_delay rt cfg attempt) w)
      else w)"


text \<open>Lines 224 to 229.\<close>

definition all_failed :: "val \<Rightarrow> world \<Rightarrow> result async" where
  "all_failed err w =
     Resolves \<lparr>data = VNull,
               error = (if truthy err then err
                        else VError ''Operation failed after all retry attempts'')\<rparr> w"

text \<open>
  The \<open>for\<close> loop of \<open>execute\<close>, lines 177 to 221, from a value of \<open>attempt\<close> on. The loop
  need not end (\<open>maxAttempts\<close> may be \<open>Infinity\<close>): \<open>None\<close> is a loop that runs forever.
\<close>

partial_function (option) attempt_loop ::
  "runtime \<Rightarrow> async_config \<Rightarrow> operation \<Rightarrow> number \<Rightarrow> int \<Rightarrow> val \<Rightarrow> world \<Rightarrow> result async option"
where
  "attempt_loop rt cfg op maxAttempts attempt err w =
     (if num_le (Fin (of_int attempt)) maxAttempts
      then (case run rt cfg op w of
              NeverSettles \<Rightarrow> Some NeverSettles
            | RejectsWith e w1 \<Rightarrow> Some (RejectsWith e w1)
            | Resolves r w1 \<Rightarrow>
                if \<not> truthy (error r) then Some (Resolves r w1)
                else if maxAttempts = Fin (of_int attempt) then Some (all_failed (error r) w1)
                else attempt_loop rt cfg op maxAttempts (next_attempt attempt) (error r)
                       (backoff rt cfg attempt w1))
      else Some (all_failed err w))"

declare attempt_loop.simps [code]

text \<open>
  \<open>execute\<close>, lines 172 to 230. The promise it returns stays pending when an attempt
  never settles or the loop runs forever.
\<close>

definition execute :: "async_operation \<Rightarrow> runtime \<Rightarrow> world \<Rightarrow> result async" where
  "execute this rt w =
     (case attempt_loop rt (config this) (operation this) (max_attempts rt (config this)) 1 VNull w of
        None \<Rightarrow> NeverSettles
      | Some outcome \<Rightarrow> outcome)"

text \<open>
  \<open>then\<close>, lines 108 to 115, with the continuation of an \<open>await\<close>: what awaiting the
  handle yields.
\<close>

definition await_operation :: "async_operation \<Rightarrow> runtime \<Rightarrow> world \<Rightarrow> result async" where
  "await_operation this rt w = execute this rt w"

section \<open>Try.catch\<close>

text \<open>
  What a function given to \<open>Try.catch\<close> returns: a value that is not a promise, or a
  promise. The argument of \<open>Try.catch\<close> is a promise, a function (given the number of its
  earlier invocations and the time; it throws or returns), or another value.
\<close>

datatype js_value = Plain val | Thenable promise

datatype input =
    InPromise promise
  | InFunction "nat \<Rightarrow> rat \<Rightarrow> val + js_value"
  | InOther val

datatype catch_result = Immediate result | Handle async_operation

text \<open>The \<open>try\<close> block of \<open>Try.catch\<close>, lines 272 to 288; \<open>Inl\<close> is a thrown value.\<close>

definition catch_try :: "input \<Rightarrow> world \<Rightarrow> (val + catch_result) \<times> world" where
  "catch_try fn w =
     (case fn of
        InPromise p \<Rightarrow> (Inr (Handle \<lparr>operation = OpPromise p, config = empty_config\<rparr>), w)
      | InOther v \<Rightarrow>
          (case then_object v of
             Some ps \<Rightarrow> (Inr (Handle \<lparr>operation = OpObject ps, config = empty_config\<rparr>), w)
           | None \<Rightarrow> (Inl (VError ''Invalid input: expected Promise or function''), w))
      | InFunction f \<Rightarrow>
          (case f (calls w) (now w) of
             Inl e \<Rightarrow> (Inl e, w\<lparr>calls := calls w + 1\<rparr>)
           | Inr (Thenable p) \<Rightarrow>
               (Inr (Handle \<lparr>operation = OpPromise p, config = empty_config\<rparr>),
                w\<lparr>calls := calls w + 1\<rparr>)
           | Inr (Plain v) \<Rightarrow>
               (case then_object v of
                  Some ps \<Rightarrow>
                    (Inr (Handle \<lparr>operation = OpObject ps, config = empty_config\<rparr>),
                     w\<lparr>calls := calls w + 1\<rparr>)
                | None \<Rightarrow>
                    (Inr (Immediate \<lparr>data = v, error = VNull\<rparr>),
                     w\<lparr>calls := calls w + 1\<rparr>))))"

text \<open>\<open>Try.catch\<close>: the \<open>try\<close> block with its \<open>catch\<close>, lines 289 to 292.\<close>

definition Try_catch :: "input \<Rightarrow> world \<Rightarrow> (val + catch_result) \<times> world" where
  "Try_catch fn w =
     (case catch_try fn w of
        (Inl e, w1) \<Rightarrow> (Inr (Immediate \<lparr>data = VNull, error = e\<rparr>), w1)
      | (Inr r, w1) \<Rightarrow> (Inr r, w1))"

section \<open>Attempts that fail, attempts that time out\<close>


text \<open>
  The computation of the attempt that starts in world \<open>w\<close> has not settled when the timer
  of that attempt fires.
\<close>

definition timer_wins :: "runtime \<Rightarrow> async_config \<Rightarrow> operation \<Rightarrow> world \<Rightarrow> bool" where
  "timer_wins rt cfg op w =
     (case obtain_promise op w of
        (Inl e, w1) \<Rightarrow> False
      | (Inr p, w1) \<Rightarrow>
          (case p of
             Never \<Rightarrow> True
           | Settles t s \<Rightarrow> now w1 + max 0 (timer_ms rt (as_number (timeoutMs cfg))) < t))"

text \<open>The same of each of the next \<open>k\<close> attempts that the loop makes.\<close>

fun timer_wins_throughout ::
  "runtime \<Rightarrow> async_config \<Rightarrow> operation \<Rightarrow> int \<Rightarrow> nat \<Rightarrow> world \<Rightarrow> bool"
where
  "timer_wins_throughout rt cfg op attempt 0 w = True"
| "timer_wins_throughout rt cfg op attempt (Suc k) w =
     (timer_wins rt cfg op w \<and>
      (case run rt cfg op w of
         Resolves r w1 \<Rightarrow>
           timer_wins_throughout rt cfg op (next_attempt attempt) k (backoff rt cfg attempt w1)
       | RejectsWith e w1 \<Rightarrow> False
       | NeverSettles \<Rightarrow> False))"

section \<open>Sample inputs\<close>

text \<open>
  A runtime for the samples. Its random numbers are all the same; its timers are those of
  Node.js, which arms a timer for the whole milliseconds of the delay when that lies
  between 1 and \<open>2 ** 31 - 1\<close> and for 1 millisecond otherwise; it prints a whole
  number in decimal digits, as JavaScript does below \<open>10 ** 21\<close>; and its arithmetic
  is exact. The samples use it on whole numbers and halves of small size only, where
  JavaScript agrees with it; the theorems hold of every runtime.
\<close>

definition node_timer :: "number \<Rightarrow> rat" where
  "node_timer d =
     (case d of
        Fin x \<Rightarrow> if 1 \<le> x \<and> x \<le> 2147483647 then of_int \<lfloor>x\<rfloor> else 1
      | PosInf \<Rightarrow> 1
      | NegInf \<Rightarrow> 1
      | NaN \<Rightarrow> 1)"

definition digit_char :: "nat \<Rightarrow> char" where
  "digit_char d = ''0123456789'' ! d"

fun decimal :: "nat \<Rightarrow> string" where
  "decimal n = (if n < 10 then [digit_char n] else decimal (n div 10) @ [digit_char (n mod 10)])"

declare decimal.simps [simp del]

definition whole_number_string :: "number \<Rightarrow> string" where
  "whole_number_string n =
     (case n of
        Fin x \<Rightarrow> (if x < 0 then ''-'' else []) @ decimal (nat \<lfloor>\<bar>x\<bar>\<rfloor>)
      | PosInf \<Rightarrow> ''Infinity''
      | NegInf \<Rightarrow> ''-Infinity''
      | NaN \<Rightarrow> ''NaN'')"

definition sample_runtime :: "rat \<Rightarrow> runtime" where
  "sample_runtime r =
     \<lparr>random_number = (\<lambda>k. r), timer_ms = node_timer,
      number_string = whole_number_string, to_double = Fin\<rparr>"

text \<open>\<open>() => v\<close> and \<open>() => null\<close>.\<close>

definition returns_value :: "val \<Rightarrow> nat \<Rightarrow> rat \<Rightarrow> val + js_value" where
  "returns_value v k t = Inr (Plain v)"

definition returns_null :: "nat \<Rightarrow> rat \<Rightarrow> val + js_value" where
  "returns_null k t = Inr (Plain VNull)"

text \<open>\<open>() => { throw e }\<close>.\<close>

definition throws_value :: "val \<Rightarrow> nat \<Rightarrow> rat \<Rightarrow> val + js_value" where
  "throws_value e k t = Inl e"

text \<open>
  A function whose invocation number \<open>k\<close> (from 0) returns a promise that rejects at once
  with the error \<open>failure k\<close>, so that the errors tell the invocations apart. Once as a
  function given to \<open>Try.catch\<close>, once as the operation of a handle.
\<close>

definition rejects_numbered :: "nat \<Rightarrow> rat \<Rightarrow> val + js_value" where
  "rejects_numbered k t =
     Inr (Thenable (Settles t (Reject (VError (''failure '' @ decimal k)))))"

definition rejecting_operation :: "nat \<Rightarrow> rat \<Rightarrow> val + promise" where
  "rejecting_operation k t =
     Inr (Settles t (Reject (VError (''failure '' @ decimal k))))"

text \<open>The handle that \<open>Try.catch\<close> returns for a promise.\<close>

definition handle_of :: "promise \<Rightarrow> async_operation" where
  "handle_of p = \<lparr>operation = OpPromise p, config = empty_config\<rparr>"

section \<open>Facts about a single attempt and about the loop\<close>

lemma run_never_rejects: "run rt cfg op w \<noteq> RejectsWith e w'"
  by (simp add: run_def note_attempt_def split: async.splits)

lemma run_shape:
  "run rt cfg op w = Resolves r w1 \<Longrightarrow>
     attempts w1 = attempts w @ [r] \<and> (data r = VNull \<or> error r = VNull) \<and>
     sleeps w1 = sleeps w \<and> draws w1 = draws w"
  by (auto simp: run_def note_attempt_def run_try_def obtain_promise_def race_timeout_def
        await_promise_def Let_def
      split: async.splits operation.splits sum.splits prod.splits promise.splits settlement.splits if_splits)

lemma backoff_attempts: "attempts (backoff rt cfg k w) = attempts w"
  by (simp add: backoff_def sleep_def)

lemma loop_never_rejects_aux:
  "attempt_loop rt cfg op m a err w = Some y \<Longrightarrow> \<forall>e w'. y \<noteq> RejectsWith e w'"
  apply (erule attempt_loop.raw_induct [rotated])
  subgoal premises prems for loop rt cfg op m a err w y
  proof (cases "run rt cfg op w")
    case (Resolves r w1)
    with prems(2) prems(1) show ?thesis
      by (auto simp: all_failed_def split: if_splits)
  next
    case (RejectsWith x w1)
    then show ?thesis by (simp add: run_never_rejects)
  next
    case NeverSettles
    with prems(2) show ?thesis
      by (auto simp: all_failed_def split: if_splits)
  qed
  done

lemma loop_never_rejects:
  "attempt_loop rt cfg op m a err w \<noteq> Some (RejectsWith e w')"
proof
  assume "attempt_loop rt cfg op m a err w = Some (RejectsWith e w')"
  from loop_never_rejects_aux [OF this] show False by simp
qed

lemma loop_log_aux:
  "attempt_loop rt cfg op m a err w = Some y \<Longrightarrow>
     \<forall>r w'. y = Resolves r w' \<longrightarrow>
       (\<exists>rs. attempts w' = attempts w @ rs \<and>
          (rs = [] \<longrightarrow> all_failed err w = Resolves r w') \<and>
          (rs \<noteq> [] \<longrightarrow> r = last rs) \<and>
          (\<forall>x \<in> set (butlast rs). truthy (error x)) \<and>
          (\<forall>x \<in> set rs. \<exists>v v1. run rt cfg op v = Resolves x v1))"
  apply (erule attempt_loop.raw_induct [rotated])
  subgoal premises prems for loop rt cfg op m a err w y
  proof (intro allI impI)
    fix r w'
    assume y: "y = Resolves r w'"
    note body = prems(2) [unfolded y]
    show "\<exists>rs. attempts w' = attempts w @ rs \<and>
          (rs = [] \<longrightarrow> all_failed err w = Resolves r w') \<and>
          (rs \<noteq> [] \<longrightarrow> r = last rs) \<and>
          (\<forall>x \<in> set (butlast rs). truthy (error x)) \<and>
          (\<forall>x \<in> set rs. \<exists>v v1. run rt cfg op v = Resolves x v1)"
    proof (cases "num_le (Fin (of_int a)) m")
      case False
      with body have af: "all_failed err w = Resolves r w'" by simp
      then have "attempts w' = attempts w" by (auto simp: all_failed_def)
      with af show ?thesis by simp
    next
      case le: True
      show ?thesis
      proof (cases "run rt cfg op w")
        case NeverSettles
        with le body show ?thesis by simp
      next
        case (RejectsWith x w1)
        then show ?thesis by (simp add: run_never_rejects)
      next
        case (Resolves r1 w1)
        note shape = run_shape [OF Resolves]
        have ex: "\<exists>v v1. run rt cfg op v = Resolves r1 v1"
          using Resolves by blast
        show ?thesis
        proof (cases "truthy (error r1)")
          case False
          with le Resolves body have "r = r1" "w' = w1" by simp_all
          with ex shape show ?thesis by (intro exI [of _ "[r1]"]) simp
        next
          case tr: True
          with shape have d: "data r1 = VNull" by auto
          show ?thesis
          proof (cases "m = Fin (of_int a)")
            case True
            with le tr Resolves body have "all_failed (error r1) w1 = Resolves r w'" by simp
            with tr d have "r = r1" "w' = w1" by (auto simp: all_failed_def)
            with ex shape show ?thesis by (intro exI [of _ "[r1]"]) simp
          next
            case False
            with le tr Resolves body
            have rec: "loop rt cfg op m (next_attempt a) (error r1) (backoff rt cfg a w1) =
                Some (Resolves r w')"
              by simp
            from prems(1) [OF rec, rule_format, OF refl]
            obtain rs where rs: "attempts w' = attempts (backoff rt cfg a w1) @ rs"
              "rs = [] \<longrightarrow> all_failed (error r1) (backoff rt cfg a w1) = Resolves r w'"
              "rs \<noteq> [] \<longrightarrow> r = last rs"
              "\<forall>x \<in> set (butlast rs). truthy (error x)"
              "\<forall>x \<in> set rs. \<exists>v v1. run rt cfg op v = Resolves x v1"
              by (elim exE conjE)
            show ?thesis
            proof (intro exI [of _ "r1 # rs"] conjI)
              show "attempts w' = attempts w @ r1 # rs"
                using rs(1) shape by (simp add: backoff_attempts)
              show "r1 # rs = [] \<longrightarrow> all_failed err w = Resolves r w'" by simp
              show "r1 # rs \<noteq> [] \<longrightarrow> r = last (r1 # rs)"
                using rs(2,3) tr d by (cases "rs = []") (auto simp: all_failed_def)
              show "\<forall>x \<in> set (butlast (r1 # rs)). truthy (error x)"
                using rs(4) tr by (cases "rs = []") auto
              from ex rs(5)
              show "\<forall>x \<in> set (r1 # rs). \<exists>v v1. run rt cfg op v = Resolves x v1"
                by simp
            qed
          qed
        qed
      qed
    qed
  qed
  done






lemma timeout_reason_truthy: "truthy (timeout_reason rt cfg)"
  by (simp add: timeout_reason_def Let_def split: option.splits)

lemma run_timer_wins:
  assumes "truthy_num (timeoutMs cfg)" and "timer_wins rt cfg op w"
  shows "\<exists>w1. run rt cfg op w = Resolves \<lparr>data = VNull, error = timeout_reason rt cfg\<rparr> w1"
  using assms
  by (auto simp: timer_wins_def run_def note_attempt_def run_try_def obtain_promise_def
        race_timeout_def await_promise_def Let_def
      split: operation.splits sum.splits promise.splits settlement.splits)

lemma loop_timer_wins:
  "timer_wins_throughout rt cfg op a (Suc k) w \<Longrightarrow> truthy_num (timeoutMs cfg) \<Longrightarrow>
   of_int (a + int k) \<le> x \<Longrightarrow> x < of_int (a + int k) + 1 \<Longrightarrow> x \<le> 2 ^ 53 \<Longrightarrow>
     \<exists>w'. attempt_loop rt cfg op (Fin x) a err w =
            Some (Resolves \<lparr>data = VNull, error = timeout_reason rt cfg\<rparr> w')"
proof (induction k arbitrary: a err w)
  case 0
  from "0.prems"(1) have tw: "timer_wins rt cfg op w" by simp
  from run_timer_wins [OF "0.prems"(2) tw] obtain w1
    where r1: "run rt cfg op w = Resolves \<lparr>data = VNull, error = timeout_reason rt cfg\<rparr> w1"
    by blast
  from "0.prems"(3) have le: "num_le (Fin (of_int a)) (Fin x)" by simp
  show ?case
  proof (cases "x = of_int a")
    case True
    with r1 le have "attempt_loop rt cfg op (Fin x) a err w =
        Some (all_failed (timeout_reason rt cfg) w1)"
      by (subst attempt_loop.simps) (simp add: timeout_reason_truthy)
    then show ?thesis by (simp add: all_failed_def timeout_reason_truthy)
  next
    case False
    with "0.prems"(3,5) have "of_int a < (2::rat) ^ 53" by simp
    then have "a < 2 ^ 53" by (metis of_int_less_iff of_int_numeral of_int_power)
    then have nx: "next_attempt a = a + 1" by (simp add: next_attempt_def)
    from "0.prems"(4) have gt: "\<not> num_le (Fin (of_int (a + 1))) (Fin x)" by simp
    have stop: "attempt_loop rt cfg op (Fin x) (a + 1) (timeout_reason rt cfg)
          (backoff rt cfg a w1) =
        Some (all_failed (timeout_reason rt cfg) (backoff rt cfg a w1))"
      using gt by (subst attempt_loop.simps) simp
    from r1 le False nx
    have "attempt_loop rt cfg op (Fin x) a err w =
        attempt_loop rt cfg op (Fin x) (a + 1) (timeout_reason rt cfg) (backoff rt cfg a w1)"
      by (subst attempt_loop.simps) (simp add: timeout_reason_truthy)
    with stop show ?thesis by (simp add: all_failed_def timeout_reason_truthy)
  qed
next
  case (Suc k)
  from Suc.prems(1) have tw: "timer_wins rt cfg op w" by simp
  from run_timer_wins [OF Suc.prems(2) tw] obtain w1
    where r1: "run rt cfg op w = Resolves \<lparr>data = VNull, error = timeout_reason rt cfg\<rparr> w1"
    by blast
  with Suc.prems(1)
  have rest: "timer_wins_throughout rt cfg op (next_attempt a) (Suc k) (backoff rt cfg a w1)"
    by simp
  from Suc.prems(3) have ax: "of_int a < x" by simp
  with Suc.prems(5) have "of_int a < (2::rat) ^ 53" by simp
  then have "a < 2 ^ 53" by (metis of_int_less_iff of_int_numeral of_int_power)
  then have nx: "next_attempt a = a + 1" by (simp add: next_attempt_def)
  from ax have le: "num_le (Fin (of_int a)) (Fin x)" and ne: "x \<noteq> of_int a" by simp_all
  have m: "a + int (Suc k) = a + 1 + int k" by simp
  from Suc.prems(3,4) have b1: "of_int (a + 1 + int k) \<le> x" and b2: "x < of_int (a + 1 + int k) + 1"
    by (simp_all add: m add.assoc)
  from Suc.IH [OF rest [unfolded nx] Suc.prems(2) b1 b2 Suc.prems(5), of "timeout_reason rt cfg"]
  obtain w' where rec:
    "attempt_loop rt cfg op (Fin x) (a + 1) (timeout_reason rt cfg) (backoff rt cfg a w1) =
     Some (Resolves \<lparr>data = VNull, error = timeout_reason rt cfg\<rparr> w')"
    by blast
  from r1 nx le ne
  have "attempt_loop rt cfg op (Fin x) a err w =
      attempt_loop rt cfg op (Fin x) (a + 1) (timeout_reason rt cfg) (backoff rt cfg a w1)"
    by (subst attempt_loop.simps) (simp add: timeout_reason_truthy)
  with rec show ?case by simp
qed

lemma run_both_null:
  assumes "run rt cfg op w = Resolves r w1" "data r = VNull" "error r = VNull"
  shows "(\<exists>t. op = OpPromise (Settles t (Fulfil VNull)) \<or> op = OpPromise (Settles t (Reject VNull))) \<or>
     (\<exists>f k t u. op = OpFunction f \<and>
        (f k t = Inl VNull \<or> f k t = Inr (Settles u (Fulfil VNull)) \<or>
         f k t = Inr (Settles u (Reject VNull))))"
proof -
  have tn: "timeout_reason rt cfg \<noteq> VNull"
    using timeout_reason_truthy [of rt cfg] by auto
  show ?thesis
  proof (cases op)
    case (OpPromise p)
    with assms tn show ?thesis
      by (auto simp: run_def note_attempt_def run_try_def obtain_promise_def race_timeout_def
        await_promise_def Let_def
        split: promise.splits settlement.splits if_splits)
  next
    case (OpObject ps)
    with assms tn show ?thesis
      by (auto simp: run_def note_attempt_def run_try_def obtain_promise_def race_timeout_def
        await_promise_def Let_def
        split: if_splits)
  next
    case (OpFunction f)
    show ?thesis
    proof (cases "f (calls w) (now w)")
      case (Inl x)
      with OpFunction assms have "x = VNull"
        by (auto simp: run_def note_attempt_def run_try_def obtain_promise_def)
      with Inl OpFunction show ?thesis
        by (intro disjI2 exI [of _ f] exI [of _ "calls w"] exI [of _ "now w"]) simp
    next
      case (Inr p)
      with OpFunction assms tn
      obtain u where "p = Settles u (Fulfil VNull) \<or> p = Settles u (Reject VNull)"
        by (auto simp: run_def note_attempt_def run_try_def obtain_promise_def race_timeout_def
          await_promise_def Let_def
          split: promise.splits settlement.splits if_splits)
      with Inr OpFunction show ?thesis
        by (intro disjI2 exI [of _ f] exI [of _ "calls w"] exI [of _ "now w"] exI [of _ u]) auto
    qed
  qed
qed

lemma run_timeout_zero:
  "run rt (cfg\<lparr>timeoutMs := Some (Fin 0), timeoutError := x\<rparr>) op w =
   run rt (cfg\<lparr>timeoutMs := None, timeoutError := None\<rparr>) op w"
proof -
  have "run_try rt (cfg\<lparr>timeoutMs := Some (Fin 0), timeoutError := x\<rparr>) op w =
        run_try rt (cfg\<lparr>timeoutMs := None, timeoutError := None\<rparr>) op w"
    by (simp add: run_try_def truthy_num_def split: prod.splits sum.splits)
  then show ?thesis by (simp add: run_def)
qed

lemma backoff_timeout_any:
  "backoff rt (cfg\<lparr>timeoutMs := a, timeoutError := x\<rparr>) k w =
   backoff rt (cfg\<lparr>timeoutMs := b, timeoutError := y\<rparr>) k w"
  by (simp add: backoff_def capped_delay_def)

lemma loop_cong_aux:
  "attempt_loop rt cfg op m a err w = Some y \<Longrightarrow>
     \<forall>cfg'. (\<forall>v. run rt cfg op v = run rt cfg' op v) \<and>
            (\<forall>k v. backoff rt cfg k v = backoff rt cfg' k v) \<longrightarrow>
            attempt_loop rt cfg' op m a err w = Some y"
  apply (erule attempt_loop.raw_induct [rotated])
  subgoal premises prems for loop rt cfg op m a err w y
  proof (intro allI impI)
    fix cfg'
    assume eq: "(\<forall>v. run rt cfg op v = run rt cfg' op v) \<and>
            (\<forall>k v. backoff rt cfg k v = backoff rt cfg' k v)"
    then have r: "run rt cfg' op w = run rt cfg op w"
      and b: "\<And>k v. backoff rt cfg' k v = backoff rt cfg k v" by simp_all
    note body = prems(2)
    show "attempt_loop rt cfg' op m a err w = Some y"
    proof (cases "run rt cfg op w")
      case (Resolves r1 w1)
      show ?thesis
      proof (cases "num_le (Fin (of_int a)) m \<and> truthy (error r1) \<and> m \<noteq> Fin (of_int a)")
        case True
        with Resolves body
        have "loop rt cfg op m (next_attempt a) (error r1) (backoff rt cfg a w1) = Some y"
          by simp
        from prems(1) [OF this, rule_format, OF eq]
        have "attempt_loop rt cfg' op m (next_attempt a) (error r1) (backoff rt cfg a w1) = Some y" .
        with True Resolves r b show ?thesis
          by (subst attempt_loop.simps) simp
      next
        case False
        with Resolves body r show ?thesis
          by (subst attempt_loop.simps) (auto split: if_splits)
      qed
    next
      case (RejectsWith x w1)
      then show ?thesis by (simp add: run_never_rejects)
    next
      case NeverSettles
      with body r show ?thesis
        by (subst attempt_loop.simps) (auto split: if_splits)
    qed
  qed
  done

lemma loop_cong:
  assumes "\<And>v. run rt cfg op v = run rt cfg' op v"
    and "\<And>k v. backoff rt cfg k v = backoff rt cfg' k v"
  shows "attempt_loop rt cfg op m a err w = attempt_loop rt cfg' op m a err w"
proof (cases "attempt_loop rt cfg op m a err w")
  case (Some y)
  from loop_cong_aux [OF Some, rule_format, of cfg'] assms
  show ?thesis using Some by simp
next
  case None
  show ?thesis
  proof (cases "attempt_loop rt cfg' op m a err w")
    case (Some y)
    from loop_cong_aux [OF Some, rule_format, of cfg] assms
    have "attempt_loop rt cfg op m a err w = Some y" by simp
    with None show ?thesis by simp
  next
    case n: None
    with None show ?thesis by simp
  qed
qed

lemma run_promise_calls:
  "run rt cfg op w = Resolves r w1 \<Longrightarrow> (\<forall>f. op \<noteq> OpFunction f) \<Longrightarrow> calls w1 = calls w"
  by (cases op)
     (auto simp: run_def note_attempt_def run_try_def obtain_promise_def race_timeout_def
        await_promise_def Let_def
      split: async.splits prod.splits promise.splits settlement.splits if_splits)

lemma backoff_calls: "calls (backoff rt cfg k w) = calls w"
  by (simp add: backoff_def sleep_def)

lemma loop_promise_calls_aux:
  "attempt_loop rt cfg op m a err w = Some y \<Longrightarrow>
     \<forall>r w'. y = Resolves r w' \<longrightarrow> (\<forall>f. op \<noteq> OpFunction f) \<longrightarrow> calls w' = calls w"
  apply (erule attempt_loop.raw_induct [rotated])
  subgoal premises prems for loop rt cfg op m a err w y
  proof (intro allI impI)
    fix r w'
    assume y: "y = Resolves r w'" and nf: "\<forall>f. op \<noteq> OpFunction f"
    note body = prems(2) [unfolded y]
    show "calls w' = calls w"
    proof (cases "run rt cfg op w")
      case NeverSettles
      with body show ?thesis by (auto simp: all_failed_def split: if_splits)
    next
      case (RejectsWith x w1)
      then show ?thesis by (simp add: run_never_rejects)
    next
      case (Resolves r1 w1)
      note c = run_promise_calls [OF Resolves nf]
      show ?thesis
      proof (cases "num_le (Fin (of_int a)) m \<and> truthy (error r1) \<and> m \<noteq> Fin (of_int a)")
        case False
        with Resolves body have "w' = w1 \<or> w' = w"
          by (auto simp: all_failed_def split: if_splits)
        with c show ?thesis by auto
      next
        case True
        with Resolves body
        have rec: "loop rt cfg op m (next_attempt a) (error r1) (backoff rt cfg a w1) =
            Some (Resolves r w')"
          by simp
        from prems(1) [OF rec] nf have "calls w' = calls (backoff rt cfg a w1)"
          by simp
        with c show ?thesis by (simp add: backoff_calls)
      qed
    qed
  qed
  done

lemma await_resolves_loop:
  "await_operation this rt w = Resolves r w' \<Longrightarrow>
     attempt_loop rt (config this) (operation this) (max_attempts rt (config this)) 1 VNull w =
       Some (Resolves r w')"
  by (simp add: await_operation_def execute_def split: option.splits)

lemma loop_forever_aux:
  "attempt_loop rt cfg op m a err w = Some y \<Longrightarrow>
     (\<forall>v. \<exists>r v1. run rt cfg op v = Resolves r v1 \<and> truthy (error r)) \<longrightarrow> m = PosInf \<longrightarrow> False"
  apply (erule attempt_loop.raw_induct [rotated])
  subgoal premises prems for loop rt cfg op m a err w y
  proof (intro impI)
    assume f: "\<forall>v. \<exists>r v1. run rt cfg op v = Resolves r v1 \<and> truthy (error r)"
      and m: "m = PosInf"
    from f obtain r w1 where r: "run rt cfg op w = Resolves r w1" and t: "truthy (error r)"
      by blast
    from prems(2) r t m
    have "loop rt cfg op m (next_attempt a) (error r) (backoff rt cfg a w1) = Some y"
      by simp
    from prems(1) [OF this, THEN mp, OF f, THEN mp, OF m] show False .
  qed
  done



text \<open>The equations that evaluate the samples.\<close>

lemmas sample_defs =
  sample_runtime_def node_timer_def whole_number_string_def decimal.simps digit_char_def
  returns_value_def returns_null_def throws_value_def rejects_numbered_def
  rejecting_operation_def handle_of_def world0_def empty_config_def

section \<open>C1: how often a function given to Try.catch is invoked under withRetry\<close>

text \<open>
  C1. The claim: a function that always rejects, given to \<open>Try.catch\<close> and chained with
  \<open>withRetry(3)\<close>, is invoked 4 times, and the final Result carries the error of the last
  rejection. On the code the function is invoked once, by \<open>Try.catch\<close> itself, which
  keeps the promise it returned; the 4 attempts await that one promise, and the final
  Result carries the error of the first and only rejection (\<open>failure 0\<close>, not
  \<open>failure 3\<close>).
\<close>

theorem function_invoked_once_under_retry:
  "Try_catch (InFunction rejects_numbered) world0 =
     (Inr (Handle (handle_of (Settles 0 (Reject (VError ''failure 0''))))),
      world0\<lparr>calls := 1\<rparr>) \<and>
   await_operation (withRetry (Fin 3) (handle_of (Settles 0 (Reject (VError ''failure 0'')))))
     (sample_runtime 0) (world0\<lparr>calls := 1\<rparr>) =
     Resolves \<lparr>data = VNull, error = VError ''failure 0''\<rparr>
       (world0\<lparr>calls := 1,
               attempts := replicate 4 \<lparr>data = VNull, error = VError ''failure 0''\<rparr>\<rparr>)"
proof
  show "Try_catch (InFunction rejects_numbered) world0 =
     (Inr (Handle (handle_of (Settles 0 (Reject (VError ''failure 0''))))),
      world0\<lparr>calls := 1\<rparr>)"
    by (simp add: Try_catch_def catch_try_def sample_defs)
  show "await_operation (withRetry (Fin 3) (handle_of (Settles 0 (Reject (VError ''failure 0'')))))
     (sample_runtime 0) (world0\<lparr>calls := 1\<rparr>) =
     Resolves \<lparr>data = VNull, error = VError ''failure 0''\<rparr>
       (world0\<lparr>calls := 1,
               attempts := replicate 4 \<lparr>data = VNull, error = VError ''failure 0''\<rparr>\<rparr>)"
    by code_simp
qed

section \<open>C2: the number of attempts\<close>




section \<open>C3: what escapes the Result\<close>

text \<open>
  C3. The claim: awaiting a handle resolves to a Result, and no exception or rejection
  escapes the public surface. On the code a rejection does escape. With a timeout
  configured, \<open>run\<close> calls \<open>operationPromise.finally(...)\<close> (line 146) and drops the
  promise that \<open>finally\<close> returns; when the operation rejects, that promise rejects too,
  and nothing handles it. Awaiting \<open>Try.catch(p).withTimeout(1000)\<close> for a promise \<open>p\<close>
  that rejects with \<open>boom\<close> after 10 ms resolves to the Result with the error \<open>boom\<close>,
  and beside it leaves an unhandled rejection with \<open>boom\<close>.
\<close>

theorem rejection_escapes_under_timeout:
  "await_operation
     (withTimeout (Fin 1000) None (handle_of (Settles 10 (Reject (VError ''boom'')))))
     (sample_runtime 0) world0 =
   Resolves \<lparr>data = VNull, error = VError ''boom''\<rparr>
     (world0\<lparr>now := 10, attempts := [\<lparr>data = VNull, error = VError ''boom''\<rparr>],
             unhandled := [VError ''boom'']\<rparr>)"
  by code_simp

section \<open>C4: data and error\<close>

text \<open>
  C4, as amended. In every Result that \<open>Try.catch\<close> returns and in every Result that
  awaiting a handle resolves to, \<open>data\<close> and \<open>error\<close> are never both non-null. They are
  both null only when the value returned or fulfilled with, or the value thrown or
  rejected with, is itself null.
\<close>

theorem data_error_not_both:
  "(Try_catch fn w = (Inr (Immediate r), w1) \<longrightarrow>
      (data r = VNull \<or> error r = VNull) \<and>
      (data r = VNull \<and> error r = VNull \<longrightarrow>
         (\<exists>f. fn = InFunction f \<and>
              (f (calls w) (now w) = Inr (Plain VNull) \<or> f (calls w) (now w) = Inl VNull)))) \<and>
   (await_operation this rt w = Resolves r w' \<longrightarrow>
      (data r = VNull \<or> error r = VNull) \<and>
      (data r = VNull \<and> error r = VNull \<longrightarrow>
         (\<exists>t. operation this = OpPromise (Settles t (Fulfil VNull)) \<or>
              operation this = OpPromise (Settles t (Reject VNull))) \<or>
         (\<exists>f k t u. operation this = OpFunction f \<and>
              (f k t = Inl VNull \<or> f k t = Inr (Settles u (Fulfil VNull)) \<or>
               f k t = Inr (Settles u (Reject VNull))))))"
proof (intro conjI impI)
  assume c: "Try_catch fn w = (Inr (Immediate r), w1)"
  then show "data r = VNull \<or> error r = VNull"
    by (auto simp: Try_catch_def catch_try_def
        split: input.splits sum.splits js_value.splits prod.splits option.splits)
  assume "data r = VNull \<and> error r = VNull"
  with c show "\<exists>f. fn = InFunction f \<and>
      (f (calls w) (now w) = Inr (Plain VNull) \<or> f (calls w) (now w) = Inl VNull)"
    by (cases fn)
       (auto simp: Try_catch_def catch_try_def
          split: sum.splits js_value.splits option.splits)
next
  assume res: "await_operation this rt w = Resolves r w'"
  from loop_log_aux [OF await_resolves_loop [OF res], rule_format, OF refl]
  obtain rs where rs: "rs = [] \<longrightarrow> all_failed VNull w = Resolves r w'"
    "rs \<noteq> [] \<longrightarrow> r = last rs"
    "\<forall>x \<in> set rs. \<exists>v v1. run rt (config this) (operation this) v = Resolves x v1"
    by (elim exE conjE)
  have from_run: "rs \<noteq> [] \<Longrightarrow> \<exists>v v1. run rt (config this) (operation this) v = Resolves r v1"
  proof -
    assume "rs \<noteq> []"
    with rs(2) have "r \<in> set rs" by simp
    with rs(3) show ?thesis by blast
  qed
  show "data r = VNull \<or> error r = VNull"
  proof (cases "rs = []")
    case True
    with rs(1) show ?thesis by (auto simp: all_failed_def)
  next
    case False
    from from_run [OF this] obtain v v1
      where "run rt (config this) (operation this) v = Resolves r v1" by blast
    from run_shape [OF this] show ?thesis by simp
  qed
  assume both: "data r = VNull \<and> error r = VNull"
  show "(\<exists>t. operation this = OpPromise (Settles t (Fulfil VNull)) \<or>
              operation this = OpPromise (Settles t (Reject VNull))) \<or>
         (\<exists>f k t u. operation this = OpFunction f \<and>
              (f k t = Inl VNull \<or> f k t = Inr (Settles u (Fulfil VNull)) \<or>
               f k t = Inr (Settles u (Reject VNull))))"
  proof (cases "rs = []")
    case True
    with rs(1) both show ?thesis by (auto simp: all_failed_def)
  next
    case False
    from from_run [OF this] obtain v v1
      where "run rt (config this) (operation this) v = Resolves r v1" by blast
    from run_both_null [OF this] both show ?thesis by simp
  qed
qed

theorem data_error_not_both_witness:
  "(data \<lparr>data = VNum (Fin 42), error = VNull\<rparr> = VNull \<or>
    error \<lparr>data = VNum (Fin 42), error = VNull\<rparr> = VNull) \<and>
   (data \<lparr>data = VNull, error = VError ''boom''\<rparr> = VNull \<or>
    error \<lparr>data = VNull, error = VError ''boom''\<rparr> = VNull)"
proof -
  have c: "Try_catch (InFunction (returns_value (VNum (Fin 42)))) world0 =
      (Inr (Immediate \<lparr>data = VNum (Fin 42), error = VNull\<rparr>), world0\<lparr>calls := 1\<rparr>)"
    by (simp add: Try_catch_def catch_try_def sample_defs)
  have a: "await_operation (withRetry (Fin 1) (handle_of (Settles 5 (Reject (VError ''boom'')))))
      (sample_runtime 0) world0 =
      Resolves \<lparr>data = VNull, error = VError ''boom''\<rparr>
        (world0\<lparr>now := 5, attempts := replicate 2 \<lparr>data = VNull, error = VError ''boom''\<rparr>\<rparr>)"
    by code_simp
  from data_error_not_both [where fn = "InFunction (returns_value (VNum (Fin 42)))" and w = world0
      and r = "\<lparr>data = VNum (Fin 42), error = VNull\<rparr>" and ?w1.0 = "world0\<lparr>calls := 1\<rparr>"] c
    data_error_not_both [where r = "\<lparr>data = VNull, error = VError ''boom''\<rparr>"
      and this = "withRetry (Fin 1) (handle_of (Settles 5 (Reject (VError ''boom''))))"
      and rt = "sample_runtime 0" and w = world0] a
  show ?thesis by blast
qed

text \<open>
  The claim as stated fails for \<open>Try.catch(() => null)\<close> and for a promise fulfilled with
  \<open>null\<close>: both fields are null.
\<close>

theorem data_error_not_both_counterexample:
  "Try_catch (InFunction returns_null) world0 =
     (Inr (Immediate \<lparr>data = VNull, error = VNull\<rparr>), world0\<lparr>calls := 1\<rparr>) \<and>
   await_operation (handle_of (Settles 0 (Fulfil VNull))) (sample_runtime 0) world0 =
     Resolves \<lparr>data = VNull, error = VNull\<rparr>
       (world0\<lparr>attempts := [\<lparr>data = VNull, error = VNull\<rparr>]\<rparr>)"
proof
  show "Try_catch (InFunction returns_null) world0 =
     (Inr (Immediate \<lparr>data = VNull, error = VNull\<rparr>), world0\<lparr>calls := 1\<rparr>)"
    by (simp add: Try_catch_def catch_try_def sample_defs)
  show "await_operation (handle_of (Settles 0 (Fulfil VNull))) (sample_runtime 0) world0 =
     Resolves \<lparr>data = VNull, error = VNull\<rparr>
       (world0\<lparr>attempts := [\<lparr>data = VNull, error = VNull\<rparr>]\<rparr>)"
    by code_simp
qed

section \<open>C5: Try.catch on functions that throw or return a plain value\<close>




section \<open>C6: the error of a timeout\<close>

text \<open>
  C6, as amended. For a handle whose timeout \<open>ms\<close> is truthy (not 0 and not \<open>NaN\<close>) and
  whose \<open>maxAttempts\<close> is a finite number from 1 to \<open>2 ** 53\<close>: when in each of the
  attempts that the loop makes the computation has not settled by the time that
  attempt's timer fires, awaiting the handle resolves to a failure whose \<open>error\<close> is the
  custom timeout error if one was supplied and is truthy, and otherwise the error with
  the message \<open>Operation timed out after {ms}ms\<close>, where \<open>{ms}\<close> is the number as the
  template literal prints it. The timer fires when the runtime's \<open>setTimeout\<close> fires it.
\<close>

theorem timeout_error:
  assumes "timeoutMs (config this) = Some ms" and "truthy_number ms"
    and "timeoutError (config this) = custom"
    and "max_attempts rt (config this) = Fin x" and "1 \<le> x" and "x \<le> 2 ^ 53"
    and "timer_wins_throughout rt (config this) (operation this) 1 (nat \<lfloor>x\<rfloor>) w"
  shows "\<exists>w'. await_operation this rt w =
     Resolves \<lparr>data = VNull,
               error = (case custom of
                          None \<Rightarrow> VError (''Operation timed out after '' @ number_string rt ms @ ''ms'')
                        | Some e \<Rightarrow>
                            if truthy e then e
                            else VError (''Operation timed out after '' @ number_string rt ms @ ''ms''))\<rparr>
       w'"
proof -
  have tm: "truthy_num (timeoutMs (config this))"
    using assms(1,2) by (simp add: truthy_num_def)
  have tr: "timeout_reason rt (config this) =
      (case custom of
         None \<Rightarrow> VError (''Operation timed out after '' @ number_string rt ms @ ''ms'')
       | Some e \<Rightarrow>
           if truthy e then e
           else VError (''Operation timed out after '' @ number_string rt ms @ ''ms''))"
    using assms(1,3) by (simp add: timeout_reason_def Let_def split: option.splits)
  from assms(5) have f1: "1 \<le> \<lfloor>x\<rfloor>" by (simp add: le_floor_iff)
  from f1 have k: "nat \<lfloor>x\<rfloor> = Suc (nat (\<lfloor>x\<rfloor> - 1))" by linarith
  from f1 have i: "1 + int (nat (\<lfloor>x\<rfloor> - 1)) = \<lfloor>x\<rfloor>" by linarith
  have fl: "rat_of_int (1 + int (nat (\<lfloor>x\<rfloor> - 1))) = of_int \<lfloor>x\<rfloor>"
    by (simp only: i)
  have b1: "rat_of_int (1 + int (nat (\<lfloor>x\<rfloor> - 1))) \<le> x" unfolding fl by simp
  have b2: "x < rat_of_int (1 + int (nat (\<lfloor>x\<rfloor> - 1))) + 1" unfolding fl by linarith
  from loop_timer_wins [OF assms(7) [unfolded k] tm b1 b2 assms(6), of VNull]
  obtain w' where "attempt_loop rt (config this) (operation this) (Fin x) 1 VNull w =
      Some (Resolves \<lparr>data = VNull, error = timeout_reason rt (config this)\<rparr> w')"
    by blast
  then have "await_operation this rt w =
      Resolves \<lparr>data = VNull, error = timeout_reason rt (config this)\<rparr> w'"
    by (simp add: await_operation_def execute_def assms(4))
  then show ?thesis unfolding tr ..
qed

theorem timeout_error_witness:
  "(\<exists>w'. await_operation (withTimeout (Fin 50) None (handle_of (Settles 1000 (Fulfil (VStr ''Hello World'')))))
       (sample_runtime 0) world0 =
     Resolves \<lparr>data = VNull, error = VError ''Operation timed out after 50ms''\<rparr> w') \<and>
   (\<exists>w'. await_operation
       (withRetry (Fin 2) (withTimeout (Fin 50) (Some (VError ''Too slow!''))
          (handle_of (Settles 1000 (Fulfil (VStr ''Hello World''))))))
       (sample_runtime 0) world0 =
     Resolves \<lparr>data = VNull, error = VError ''Too slow!''\<rparr> w')"
proof -
  let ?p = "handle_of (Settles 1000 (Fulfil (VStr ''Hello World'')))"
  let ?a = "withTimeout (Fin 50) None ?p"
  let ?b = "withRetry (Fin 2) (withTimeout (Fin 50) (Some (VError ''Too slow!'')) ?p)"
  have a1: "timeoutMs (config ?a) = Some (Fin 50)" by (simp add: withTimeout_def)
  have a3: "timeoutError (config ?a) = None" by (simp add: withTimeout_def)
  have a4: "max_attempts (sample_runtime 0) (config ?a) = Fin 1" by code_simp
  have a5: "timer_wins_throughout (sample_runtime 0) (config ?a) (operation ?a) 1
      (nat \<lfloor>1 :: rat\<rfloor>) world0"
    by code_simp
  have b1: "timeoutMs (config ?b) = Some (Fin 50)" by (simp add: withTimeout_def withRetry_def)
  have b3: "timeoutError (config ?b) = Some (VError ''Too slow!'')"
    by (simp add: withTimeout_def withRetry_def)
  have b4: "max_attempts (sample_runtime 0) (config ?b) = Fin 3" by code_simp
  have b5: "timer_wins_throughout (sample_runtime 0) (config ?b) (operation ?b) 1
      (nat \<lfloor>3 :: rat\<rfloor>) world0"
    by code_simp
  have nz: "truthy_number (Fin 50)" by simp
  have x1: "(1::rat) \<le> 1" "(1::rat) \<le> 2 ^ 53" "(1::rat) \<le> 3" "(3::rat) \<le> 2 ^ 53" by simp_all
  have s: "number_string (sample_runtime 0) (Fin 50) = ''50''" by code_simp
  from timeout_error [OF a1 nz a3 a4 x1(1) x1(2) a5] timeout_error [OF b1 nz b3 b4 x1(3) x1(4) b5]
  show ?thesis by (simp add: s)
qed

text \<open>
  The claim as stated fails in four ways, each with a computation that does not settle
  within \<open>ms\<close> milliseconds: \<open>withTimeout(0)\<close> arms no timer, and the value arrives after
  1000 ms; a custom error that is falsy (the empty string) is replaced by the default
  error; under \<open>withRetry(3)\<close> a promise that settles after 120 ms loses two races of
  50 ms and wins the third; and with a negative retry count no attempt is made.
\<close>

theorem timeout_error_counterexample:
  "await_operation (withTimeout (Fin 0) None (handle_of (Settles 1000 (Fulfil (VStr ''Hello World'')))))
     (sample_runtime 0) world0 =
   Resolves \<lparr>data = VStr ''Hello World'', error = VNull\<rparr>
     (world0\<lparr>now := 1000, attempts := [\<lparr>data = VStr ''Hello World'', error = VNull\<rparr>]\<rparr>) \<and>
   await_operation (withTimeout (Fin 50) (Some (VStr []))
       (handle_of (Settles 1000 (Fulfil (VStr ''Hello World'')))))
     (sample_runtime 0) world0 =
   Resolves \<lparr>data = VNull, error = VError ''Operation timed out after 50ms''\<rparr>
     (world0\<lparr>now := 50,
             attempts := [\<lparr>data = VNull, error = VError ''Operation timed out after 50ms''\<rparr>]\<rparr>) \<and>
   await_operation (withRetry (Fin 3) (withTimeout (Fin 50) None
       (handle_of (Settles 120 (Fulfil (VStr ''Hello World''))))))
     (sample_runtime 0) world0 =
   Resolves \<lparr>data = VStr ''Hello World'', error = VNull\<rparr>
     (world0\<lparr>now := 120,
             attempts := [\<lparr>data = VNull, error = VError ''Operation timed out after 50ms''\<rparr>,
                          \<lparr>data = VNull, error = VError ''Operation timed out after 50ms''\<rparr>,
                          \<lparr>data = VStr ''Hello World'', error = VNull\<rparr>]\<rparr>) \<and>
   await_operation (withRetry (Fin (- 1)) (withTimeout (Fin 50) None (handle_of Never)))
     (sample_runtime 0) world0 =
   Resolves \<lparr>data = VNull, error = VError ''Operation failed after all retry attempts''\<rparr> world0"
  by code_simp

section \<open>C7: the delays between attempts\<close>




section \<open>C8: what the chaining methods do to the configuration\<close>

text \<open>
  C8, as amended. Each of \<open>withTimeout\<close>, \<open>withRetry\<close> and \<open>withBackoff\<close> returns a handle
  with the same operation, whose configuration is the prior one with the keys of that
  method overwritten: \<open>timeoutMs\<close> and \<open>timeoutError\<close> by \<open>withTimeout\<close> (the error
  \<open>undefined\<close> when none is passed), \<open>maxRetries\<close> by \<open>withRetry\<close>, and all of
  \<open>baseDelayMs\<close>, \<open>exponential\<close>, \<open>maxDelayMs\<close>, \<open>jitter\<close> by \<open>withBackoff\<close> (\<open>undefined\<close>
  for an option left out). The keys of the other methods keep their values. So a later
  call of a method replaces an earlier call of the same method altogether, and calls of
  different methods can be made in any order.
\<close>

theorem chaining_sets_own_keys:
  "operation (withTimeout ms e this) = operation this \<and>
   operation (withRetry n this) = operation this \<and>
   operation (withBackoff opts this) = operation this \<and>
   timeoutMs (config (withTimeout ms e this)) = Some ms \<and>
   timeoutError (config (withTimeout ms e this)) = e \<and>
   maxRetries (config (withTimeout ms e this)) = maxRetries (config this) \<and>
   baseDelayMs (config (withTimeout ms e this)) = baseDelayMs (config this) \<and>
   exponential (config (withTimeout ms e this)) = exponential (config this) \<and>
   maxDelayMs (config (withTimeout ms e this)) = maxDelayMs (config this) \<and>
   jitter (config (withTimeout ms e this)) = jitter (config this) \<and>
   maxRetries (config (withRetry n this)) = Some n \<and>
   timeoutMs (config (withRetry n this)) = timeoutMs (config this) \<and>
   timeoutError (config (withRetry n this)) = timeoutError (config this) \<and>
   baseDelayMs (config (withRetry n this)) = baseDelayMs (config this) \<and>
   exponential (config (withRetry n this)) = exponential (config this) \<and>
   maxDelayMs (config (withRetry n this)) = maxDelayMs (config this) \<and>
   jitter (config (withRetry n this)) = jitter (config this) \<and>
   baseDelayMs (config (withBackoff opts this)) = baseDelayMs opts \<and>
   exponential (config (withBackoff opts this)) = exponential opts \<and>
   maxDelayMs (config (withBackoff opts this)) = maxDelayMs opts \<and>
   jitter (config (withBackoff opts this)) = jitter opts \<and>
   timeoutMs (config (withBackoff opts this)) = timeoutMs (config this) \<and>
   timeoutError (config (withBackoff opts this)) = timeoutError (config this) \<and>
   maxRetries (config (withBackoff opts this)) = maxRetries (config this) \<and>
   withTimeout ms e (withTimeout ms' e' this) = withTimeout ms e this \<and>
   withRetry n (withRetry n' this) = withRetry n this \<and>
   withBackoff opts (withBackoff opts' this) = withBackoff opts this \<and>
   withRetry n (withTimeout ms e this) = withTimeout ms e (withRetry n this) \<and>
   withBackoff opts (withTimeout ms e this) = withTimeout ms e (withBackoff opts this) \<and>
   withBackoff opts (withRetry n this) = withRetry n (withBackoff opts this)"
  by (simp add: withTimeout_def withRetry_def withBackoff_def)

theorem chaining_sets_own_keys_witness:
  "withTimeout (Fin 50) None
     (withTimeout (Fin 3000) (Some (VError ''Too slow!'')) (handle_of Never)) =
     withTimeout (Fin 50) None (handle_of Never) \<and>
   maxRetries (config (withTimeout (Fin 50) None (withRetry (Fin 3) (handle_of Never)))) =
     Some (Fin 3)"
proof -
  from chaining_sets_own_keys [of "Fin 50" None "handle_of Never" "Fin 3" _ "Fin 3000"
      "Some (VError ''Too slow!'')"]
  have a: "withTimeout (Fin 50) None
       (withTimeout (Fin 3000) (Some (VError ''Too slow!'')) (handle_of Never)) =
     withTimeout (Fin 50) None (handle_of Never)"
    and b: "maxRetries (config (withRetry (Fin 3) (handle_of Never))) = Some (Fin 3)"
    by blast+
  from chaining_sets_own_keys [of "Fin 50" None "withRetry (Fin 3) (handle_of Never)"]
  have "maxRetries (config (withTimeout (Fin 50) None (withRetry (Fin 3) (handle_of Never)))) =
      maxRetries (config (withRetry (Fin 3) (handle_of Never)))"
    by blast
  with a b show ?thesis by simp
qed

text \<open>
  The claim as stated fails: the configuration is not the prior one merged with the
  options that the call supplies. A \<open>withBackoff({baseDelayMs: 100})\<close> after a
  \<open>withBackoff({baseDelayMs: 50, exponential: true})\<close> leaves \<open>exponential\<close> undefined, and
  a \<open>withTimeout(50)\<close> after a \<open>withTimeout(3000, error)\<close> leaves \<open>timeoutError\<close> undefined:
  keys that the later call does not name lose their earlier values.
\<close>

theorem chaining_sets_own_keys_counterexample:
  "exponential (config
     (withBackoff \<lparr>baseDelayMs = Some (Fin 50), exponential = Some True, maxDelayMs = None,
                   jitter = None\<rparr>
        (handle_of Never))) = Some True \<and>
   exponential (config
     (withBackoff \<lparr>baseDelayMs = Some (Fin 100), exponential = None, maxDelayMs = None,
                   jitter = None\<rparr>
        (withBackoff \<lparr>baseDelayMs = Some (Fin 50), exponential = Some True, maxDelayMs = None,
                      jitter = None\<rparr>
           (handle_of Never)))) = None \<and>
   timeoutError (config (withTimeout (Fin 3000) (Some (VError ''Too slow!'')) (handle_of Never))) =
     Some (VError ''Too slow!'') \<and>
   timeoutError (config (withTimeout (Fin 50) None
     (withTimeout (Fin 3000) (Some (VError ''Too slow!'')) (handle_of Never)))) = None"
  by (simp add: withTimeout_def withBackoff_def)

section \<open>C9: the final error is the last attempt's\<close>

text \<open>
  C9. When awaiting a handle resolves to a Result, the \<open>error\<close> of that Result is the
  \<open>error\<close> of the Result of the last attempt made, unchanged; the substitute error
  \<open>Operation failed after all retry attempts\<close> is returned only when no attempt was made,
  so that no error was ever recorded. \<open>rs\<close> are the Results of the attempts made by this
  await, in order.
\<close>

theorem final_error_is_last_error:
  assumes "await_operation this rt w = Resolves r w'"
  shows "\<exists>rs. attempts w' = attempts w @ rs \<and>
     (rs \<noteq> [] \<longrightarrow> error r = error (last rs)) \<and>
     (rs = [] \<longrightarrow> error r = VError ''Operation failed after all retry attempts'')"
proof -
  from loop_log_aux [OF await_resolves_loop [OF assms], rule_format, OF refl]
  obtain rs where rs: "attempts w' = attempts w @ rs"
    "rs = [] \<longrightarrow> all_failed VNull w = Resolves r w'" "rs \<noteq> [] \<longrightarrow> r = last rs"
    by (elim exE conjE)
  from rs(2) have "rs = [] \<longrightarrow> error r = VError ''Operation failed after all retry attempts''"
    by (auto simp: all_failed_def)
  with rs(1,3) show ?thesis by blast
qed

theorem final_error_is_last_error_witness:
  "await_operation
     (withRetry (Fin 2) \<lparr>operation = OpFunction rejecting_operation, config = empty_config\<rparr>)
     (sample_runtime 0) world0 =
     Resolves \<lparr>data = VNull, error = VError ''failure 2''\<rparr>
       (world0\<lparr>calls := 3,
               attempts := [\<lparr>data = VNull, error = VError ''failure 0''\<rparr>,
                            \<lparr>data = VNull, error = VError ''failure 1''\<rparr>,
                            \<lparr>data = VNull, error = VError ''failure 2''\<rparr>]\<rparr>) \<and>
   error \<lparr>data = VNull, error = VError ''failure 2''\<rparr> =
     error (last [\<lparr>data = VNull, error = VError ''failure 0''\<rparr>,
                  \<lparr>data = VNull, error = VError ''failure 1''\<rparr>,
                  \<lparr>data = VNull, error = VError ''failure 2''\<rparr>])"
proof -
  have e: "await_operation
     (withRetry (Fin 2) \<lparr>operation = OpFunction rejecting_operation, config = empty_config\<rparr>)
     (sample_runtime 0) world0 =
     Resolves \<lparr>data = VNull, error = VError ''failure 2''\<rparr>
       (world0\<lparr>calls := 3,
               attempts := [\<lparr>data = VNull, error = VError ''failure 0''\<rparr>,
                            \<lparr>data = VNull, error = VError ''failure 1''\<rparr>,
                            \<lparr>data = VNull, error = VError ''failure 2''\<rparr>]\<rparr>)"
    by code_simp
  from final_error_is_last_error [OF e] e show ?thesis
    by (auto simp: world0_def)
qed

section \<open>C10: withTimeout(0)\<close>

text \<open>
  C10. Awaiting a handle configured with \<open>withTimeout(0)\<close>, with or without a custom
  error, is the same as awaiting the handle with no timeout in its configuration; and a
  single attempt of it awaits the promise of the operation itself, with no race against a
  timer.
\<close>

theorem timeout_zero_is_no_timeout:
  "await_operation (withTimeout (Fin 0) err this) rt w =
     await_operation
       \<lparr>operation = operation this,
        config = (config this)\<lparr>timeoutMs := None, timeoutError := None\<rparr>\<rparr> rt w \<and>
   run_try rt (config (withTimeout (Fin 0) err this)) (operation this) w =
     (case obtain_promise (operation this) w of
        (Inl e, w1) \<Rightarrow> RejectsWith e w1
      | (Inr p, w1) \<Rightarrow>
          (case await_promise p w1 of
             Resolves v w2 \<Rightarrow> Resolves \<lparr>data = v, error = VNull\<rparr> w2
           | RejectsWith e w2 \<Rightarrow> RejectsWith e w2
           | NeverSettles \<Rightarrow> NeverSettles))"
proof
  have "attempt_loop rt ((config this)\<lparr>timeoutMs := Some (Fin 0), timeoutError := err\<rparr>)
          (operation this) (max_attempts rt (config this)) 1 VNull w =
        attempt_loop rt ((config this)\<lparr>timeoutMs := None, timeoutError := None\<rparr>)
          (operation this) (max_attempts rt (config this)) 1 VNull w"
    by (rule loop_cong) (rule run_timeout_zero, rule backoff_timeout_any)
  then show "await_operation (withTimeout (Fin 0) err this) rt w =
     await_operation
       \<lparr>operation = operation this,
        config = (config this)\<lparr>timeoutMs := None, timeoutError := None\<rparr>\<rparr> rt w"
    by (simp add: await_operation_def execute_def withTimeout_def max_attempts_def)
  show "run_try rt (config (withTimeout (Fin 0) err this)) (operation this) w =
     (case obtain_promise (operation this) w of
        (Inl e, w1) \<Rightarrow> RejectsWith e w1
      | (Inr p, w1) \<Rightarrow>
          (case await_promise p w1 of
             Resolves v w2 \<Rightarrow> Resolves \<lparr>data = v, error = VNull\<rparr> w2
           | RejectsWith e w2 \<Rightarrow> RejectsWith e w2
           | NeverSettles \<Rightarrow> NeverSettles))"
    by (simp add: run_try_def withTimeout_def truthy_num_def split: prod.splits sum.splits)
qed

theorem timeout_zero_is_no_timeout_witness:
  "await_operation (withTimeout (Fin 0) (Some (VError ''Too slow!''))
       (handle_of (Settles 1000 (Fulfil (VStr ''Hello World'')))))
     (sample_runtime 0) world0 =
   Resolves \<lparr>data = VStr ''Hello World'', error = VNull\<rparr>
     (world0\<lparr>now := 1000, attempts := [\<lparr>data = VStr ''Hello World'', error = VNull\<rparr>]\<rparr>)"
proof -
  have "await_operation
       \<lparr>operation = operation (handle_of (Settles 1000 (Fulfil (VStr ''Hello World'')))),
        config = (config (handle_of (Settles 1000 (Fulfil (VStr ''Hello World'')))))
          \<lparr>timeoutMs := None, timeoutError := None\<rparr>\<rparr> (sample_runtime 0) world0 =
     Resolves \<lparr>data = VStr ''Hello World'', error = VNull\<rparr>
       (world0\<lparr>now := 1000, attempts := [\<lparr>data = VStr ''Hello World'', error = VNull\<rparr>]\<rparr>)"
    by code_simp
  with timeout_zero_is_no_timeout [of "Some (VError ''Too slow!'')"
      "handle_of (Settles 1000 (Fulfil (VStr ''Hello World'')))" "sample_runtime 0" world0]
  show ?thesis by simp
qed

section \<open>Further properties\<close>

text \<open>
  A function given to \<open>Try.catch\<close> that returns a promise is invoked once, by \<open>Try.catch\<close>.
  Awaiting the handle, however it has been configured by the chaining methods (which keep
  the operation), does not invoke it again.
\<close>

theorem catch_invokes_function_once:
  assumes "Try_catch (InFunction f) w = (Inr (Handle h), w1)"
    and "operation this = operation h"
    and "await_operation this rt w1 = Resolves r w2"
  shows "calls w1 = calls w + 1 \<and> calls w2 = calls w + 1"
proof -
  from assms(1) have nf: "\<forall>g. operation h \<noteq> OpFunction g"
    and c: "calls w1 = calls w + 1"
    by (auto simp: Try_catch_def catch_try_def
        split: sum.splits js_value.splits option.splits)
  from nf assms(2) have nf': "\<forall>g. operation this \<noteq> OpFunction g" by simp
  from loop_promise_calls_aux [OF await_resolves_loop [OF assms(3)]] nf'
  have "calls w2 = calls w1" by simp
  with c show ?thesis by simp
qed

theorem catch_invokes_function_once_witness:
  "calls (world0\<lparr>calls := 1\<rparr>) = calls world0 + 1 \<and>
   calls (world0\<lparr>now := 150, calls := 1,
                  attempts := replicate 6 \<lparr>data = VNull, error = VError ''failure 0''\<rparr>,
                  sleeps := [Fin 10, Fin 20, Fin 30, Fin 40, Fin 50],
                  unhandled := replicate 6 (VError ''failure 0'')\<rparr>) = calls world0 + 1"
proof -
  have a: "Try_catch (InFunction rejects_numbered) world0 =
      (Inr (Handle (handle_of (Settles 0 (Reject (VError ''failure 0''))))), world0\<lparr>calls := 1\<rparr>)"
    by (simp add: Try_catch_def catch_try_def sample_defs)
  have b: "await_operation
      (withBackoff \<lparr>baseDelayMs = Some (Fin 10), exponential = None, maxDelayMs = None,
                    jitter = None\<rparr>
         (withRetry (Fin 5)
            (withTimeout (Fin 1000) None (handle_of (Settles 0 (Reject (VError ''failure 0'')))))))
      (sample_runtime 0) (world0\<lparr>calls := 1\<rparr>) =
    Resolves \<lparr>data = VNull, error = VError ''failure 0''\<rparr>
      (world0\<lparr>now := 150, calls := 1,
                  attempts := replicate 6 \<lparr>data = VNull, error = VError ''failure 0''\<rparr>,
                  sleeps := [Fin 10, Fin 20, Fin 30, Fin 40, Fin 50],
                  unhandled := replicate 6 (VError ''failure 0'')\<rparr>)"
    by code_simp
  have o: "operation
      (withBackoff \<lparr>baseDelayMs = Some (Fin 10), exponential = None, maxDelayMs = None,
                    jitter = None\<rparr>
         (withRetry (Fin 5)
            (withTimeout (Fin 1000) None (handle_of (Settles 0 (Reject (VError ''failure 0''))))))) =
    operation (handle_of (Settles 0 (Reject (VError ''failure 0''))))"
    by (simp add: withBackoff_def withRetry_def withTimeout_def)
  from catch_invokes_function_once [OF a o b] show ?thesis .
qed

text \<open>
  With a timeout configured, an attempt on a promise that rejects with \<open>e\<close> leaves, beside
  its Result, a rejection with \<open>e\<close> that has no handler: the promise returned by
  \<open>operationPromise.finally(...)\<close> in line 146.
\<close>

theorem timeout_leaves_unhandled_rejection:
  assumes "truthy_num (timeoutMs cfg)"
    and "run rt cfg (OpPromise (Settles t (Reject e))) w = Resolves r w1"
  shows "unhandled w1 = unhandled w @ [e]"
  using assms
  by (auto simp: run_def note_attempt_def run_try_def obtain_promise_def race_timeout_def
        await_promise_def Let_def split: if_splits)

theorem timeout_leaves_unhandled_rejection_witness:
  "unhandled (world0\<lparr>now := 10, attempts := [\<lparr>data = VNull, error = VError ''boom''\<rparr>],
                    unhandled := [VError ''boom'']\<rparr>) = unhandled world0 @ [VError ''boom'']"
proof -
  have a: "truthy_num (timeoutMs (config (withTimeout (Fin 1000) None
      (handle_of (Settles 10 (Reject (VError ''boom'')))))))"
    by (simp add: withTimeout_def truthy_num_def)
  have c: "run (sample_runtime 0)
      (config (withTimeout (Fin 1000) None (handle_of (Settles 10 (Reject (VError ''boom''))))))
      (OpPromise (Settles 10 (Reject (VError ''boom'')))) world0 =
    Resolves \<lparr>data = VNull, error = VError ''boom''\<rparr>
      (world0\<lparr>now := 10, attempts := [\<lparr>data = VNull, error = VError ''boom''\<rparr>],
                    unhandled := [VError ''boom'']\<rparr>)"
    by code_simp
  from timeout_leaves_unhandled_rejection [OF a c] show ?thesis .
qed

text \<open>
  The promise that awaiting a handle waits for never rejects: it resolves to a Result or
  stays pending.
\<close>

theorem await_never_rejects:
  "await_operation this rt w \<noteq> RejectsWith e w'"
proof (cases "attempt_loop rt (config this) (operation this) (max_attempts rt (config this))
    1 VNull w")
  case None
  then show ?thesis by (simp add: await_operation_def execute_def)
next
  case (Some y)
  with loop_never_rejects [of rt "config this" "operation this" "max_attempts rt (config this)"
      1 VNull w e w']
  show ?thesis by (simp add: await_operation_def execute_def)
qed

text \<open>
  It can stay pending with every attempt settled: with \<open>withRetry(Infinity)\<close>, a handle
  whose attempts all fail is retried forever.
\<close>

theorem retry_forever:
  assumes "maxRetries (config this) = Some PosInf"
    and "\<forall>v. \<exists>r v1. run rt (config this) (operation this) v = Resolves r v1 \<and> truthy (error r)"
  shows "await_operation this rt w = NeverSettles"
proof -
  have m: "max_attempts rt (config this) = PosInf"
    using assms(1) by (simp add: max_attempts_def or_num_def)
  have "attempt_loop rt (config this) (operation this) PosInf 1 VNull w = None"
  proof (cases "attempt_loop rt (config this) (operation this) PosInf 1 VNull w")
    case None
    then show ?thesis .
  next
    case (Some y)
    from loop_forever_aux [OF Some, THEN mp, OF assms(2), THEN mp, OF refl]
    show ?thesis ..
  qed
  then show ?thesis by (simp add: await_operation_def execute_def m)
qed

theorem retry_forever_witness:
  "await_operation (withRetry PosInf (handle_of (Settles 0 (Reject (VError ''boom'')))))
     (sample_runtime 0) world0 = NeverSettles"
proof -
  let ?h = "withRetry PosInf (handle_of (Settles 0 (Reject (VError ''boom''))))"
  have a: "maxRetries (config ?h) = Some PosInf" by (simp add: withRetry_def)
  have b: "\<forall>v. \<exists>r v1. run (sample_runtime 0) (config ?h) (operation ?h) v = Resolves r v1 \<and>
      truthy (error r)"
    by (simp add: withRetry_def handle_of_def empty_config_def run_def run_try_def
          obtain_promise_def await_promise_def note_attempt_def truthy_num_def)
  from retry_forever [OF a b] show ?thesis .
qed

end
